theory Spec2Isabelle
  imports Main "HOL-Library.Word" "HOL-Library.AList"
begin

section \<open>minikv: the store, the expiration index and the sweep\<close>

text \<open>
  The development embeds the current \<^verbatim>\<open>minikv.go\<close> (the version with the
  \<^verbatim>\<open>meta\<close> channels and the \<^verbatim>\<open>exp\<close> bucket map).

  \<^item> \<^verbatim>\<open>int64\<close> and \<^verbatim>\<open>time.Duration\<close> are 64-bit words; \<open>+\<close> wraps and the
    comparisons of the source are signed, written \<open>sint a < sint b\<close>.
  \<^item> \<^verbatim>\<open>time.Now().UnixNano()\<close> is the argument \<open>now\<close> of every operation that reads
    the clock; \<^verbatim>\<open>time.Now().Add(d).UnixNano()\<close> is \<open>now + d\<close> on words.
  \<^item> A Go map that the code ranges over is an association list: lookups are
    \<open>map_of\<close>, writes are \<open>AList.update\<close> and \<open>AList.delete\<close>, and the order of the
    list stands for the (unspecified) order in which \<^verbatim>\<open>range\<close> visits the entries.
    The inner \<^verbatim>\<open>map[string]*struct{}\<close> of a bucket is a list of keys used as a set
    (\<open>List.insert\<close>, \<open>removeAll\<close>).
  \<^item> A callback slot is a flag (\<open>True\<close>: a function is registered, \<open>False\<close>: the
    slot is \<^verbatim>\<open>nil\<close>); every \<^verbatim>\<open>go kv.onDeleted(..)\<close> and \<^verbatim>\<open>go kv.onEvicted(..)\<close>
    appends the call with its arguments to the field \<open>spawned\<close>.
  \<^item> A buffered channel is the queue of the values sent and not yet received; a
    send appends at the end. The capacity (10) and the blocking of a sender on a
    full channel are not part of the model, and neither is the mutex \<^verbatim>\<open>mu\<close>.
\<close>

subsection \<open>Data\<close>

type_synonym int64 = "64 word"

text \<open>A value of type \<^verbatim>\<open>interface{}\<close>: \<^verbatim>\<open>nil\<close>, a boxed \<^verbatim>\<open>int64\<close>, a string, or any
  other value (identified by a number).\<close>

datatype iface = nil | I64 int64 | Str string | Opaque nat

definition NoExpiration :: int64 where
  "NoExpiration = - 1"

definition DefaultExpiration :: int64 where
  "DefaultExpiration = 0"

text \<open>\<^verbatim>\<open>meta\<close> has the fields \<^verbatim>\<open>Key\<close> and \<^verbatim>\<open>Expiration\<close>, as \<^verbatim>\<open>Item\<close> has; record
  fields are global names, so those of \<^verbatim>\<open>meta\<close> carry a prefix. \<^verbatim>\<open>updateMeta\<close>
  embeds \<^verbatim>\<open>meta\<close>.\<close>

record meta =
  meta_Key :: string
  meta_Expiration :: int64

record updateMeta = meta +
  PriorExpiration :: int64

record Item =
  Key :: string
  Object :: iface
  Expiration :: int64

text \<open>The zero value \<^verbatim>\<open>Item{}\<close>.\<close>

definition Item_zero :: Item where
  "Item_zero = \<lparr>Key = [], Object = nil, Expiration = 0\<rparr>"

datatype error = errors_New string

datatype call = onDeleted_call string iface | onEvicted_call string iface

record KV =
  defaultExpiration :: int64
  cleanupInterval :: int64
  items :: "(string \<times> Item) list"
  onDeleted :: bool
  onEvicted :: bool
  metaAdd :: "meta list"
  metaUpdate :: "updateMeta list"
  metaDelete :: "meta list"
  exp :: "(int64 \<times> string list) list"
  spawned :: "call list"

subsection \<open>Construction and callback registration\<close>

text \<open>\<^verbatim>\<open>New\<close> without the \<^verbatim>\<open>go new.runJanitor()\<close>: the janitor's iterations are
  \<open>runJanitor_iter\<close> below.\<close>

definition New :: "int64 \<Rightarrow> int64 \<Rightarrow> KV" where
  "New defaultExpiration' cleanupInterval' =
     \<lparr>defaultExpiration = defaultExpiration',
      cleanupInterval = cleanupInterval',
      items = [],
      onDeleted = False,
      onEvicted = False,
      metaAdd = [],
      metaUpdate = [],
      metaDelete = [],
      exp = [],
      spawned = []\<rparr>"

definition OnEvicted :: "bool \<Rightarrow> KV \<Rightarrow> KV" where
  "OnEvicted f kv = kv\<lparr>onEvicted := f\<rparr>"

definition OnDeleted :: "bool \<Rightarrow> KV \<Rightarrow> KV" where
  "OnDeleted f kv = kv\<lparr>onDeleted := f\<rparr>"

subsection \<open>Store operations\<close>

definition Set :: "int64 \<Rightarrow> string \<Rightarrow> iface \<Rightarrow> int64 \<Rightarrow> KV \<Rightarrow> KV" where
  "Set now key val ttl kv =
     (let expiredAt =
            (if ttl = DefaultExpiration then now + defaultExpiration kv
             else if ttl = NoExpiration then 0
             else now + ttl);
          item = \<lparr>Key = key, Object = val, Expiration = expiredAt\<rparr>
      in case map_of (items kv) key of
           None \<Rightarrow>
             kv\<lparr>items := AList.update key item (items kv),
                metaAdd := metaAdd kv @
                  [\<lparr>meta_Key = Key item, meta_Expiration = Expiration item\<rparr>]\<rparr>
         | Some priorItem \<Rightarrow>
             (let kv' = kv\<lparr>items := AList.update key item (items kv)\<rparr>
              in if Expiration item \<noteq> Expiration priorItem
                 then kv'\<lparr>metaUpdate := metaUpdate kv' @
                        [\<lparr>meta_Key = key, meta_Expiration = expiredAt,
                          PriorExpiration = Expiration priorItem\<rparr>]\<rparr>
                 else kv'))"


definition Get :: "int64 \<Rightarrow> string \<Rightarrow> KV \<Rightarrow> iface \<times> bool" where
  "Get now key kv =
     (case map_of (items kv) key of
        Some val \<Rightarrow>
          if sint (Expiration val) > sint now then (Object val, True) else (nil, False)
      | None \<Rightarrow> (nil, False))"

definition IsExist :: "int64 \<Rightarrow> string \<Rightarrow> KV \<Rightarrow> bool" where
  "IsExist now key kv =
     (case map_of (items kv) key of
        Some val \<Rightarrow> if sint (Expiration val) > sint now then True else False
      | None \<Rightarrow> False)"

text \<open>\<^verbatim>\<open>Item.Expired\<close>: \<^verbatim>\<open>return now > item.Expiration\<close>.\<close>

definition Expired :: "int64 \<Rightarrow> Item \<Rightarrow> bool" where
  "Expired now item = (sint now > sint (Expiration item))"

text \<open>
  \<^verbatim>\<open>deleteInner\<close> has the named results \<^verbatim>\<open>(val Item, err error)\<close>. Inside the
  \<^verbatim>\<open>if\<close> block, \<^verbatim>\<open>val := obj.(Item)\<close> declares a new variable that shadows the
  result \<^verbatim>\<open>val\<close>; the callback reads the new one, while the final
  \<^verbatim>\<open>return val, err\<close> is outside the block and returns the result variable, which
  still holds its zero value. So the returned item is \<open>Item_zero\<close> on both paths.
\<close>

definition deleteInner :: "string \<Rightarrow> KV \<Rightarrow> KV \<times> Item \<times> error option" where
  "deleteInner key kv =
     (case map_of (items kv) key of
        Some val' \<Rightarrow>
          (let kv1 = (if onDeleted kv
                      then kv\<lparr>spawned := spawned kv @ [onDeleted_call key (Object val')]\<rparr>
                      else kv)
           in (kv1\<lparr>items := AList.delete key (items kv1)\<rparr>, Item_zero, None))
      | None \<Rightarrow> (kv, Item_zero, Some (errors_New ''key args not exist'')))"

definition Delete :: "string \<Rightarrow> KV \<Rightarrow> KV \<times> error option" where
  "Delete key kv =
     (case deleteInner key kv of
        (kv', itm, Some err) \<Rightarrow> (kv', Some err)
      | (kv', itm, None) \<Rightarrow>
          (kv'\<lparr>metaDelete := metaDelete kv' @
                 [\<lparr>meta_Key = Key itm, meta_Expiration = Expiration itm\<rparr>]\<rparr>,
           None))"

text \<open>\<^verbatim>\<open>ItemCountAll\<close> and \<^verbatim>\<open>Flush\<close> range over the entries of \<^verbatim>\<open>items\<close>; \<^verbatim>\<open>Flush\<close>
  deletes each visited key from the map.\<close>

definition ItemCountAll :: "KV \<Rightarrow> int" where
  "ItemCountAll kv = fold (\<lambda>(key, val) total. total + 1) (items kv) 0"

definition Flush :: "KV \<Rightarrow> KV" where
  "Flush kv = fold (\<lambda>(key, val) kv'. kv'\<lparr>items := AList.delete key (items kv')\<rparr>) (items kv) kv"

subsection \<open>The sweep\<close>

text \<open>The inner loop of \<^verbatim>\<open>DeleteExpired\<close>, over the keys of one bucket.\<close>

fun DeleteExpired_keys :: "string list \<Rightarrow> KV \<Rightarrow> KV" where
  "DeleteExpired_keys [] kv = kv"
| "DeleteExpired_keys (k # ks) kv =
     (case deleteInner k kv of
        (kv', itm, err) \<Rightarrow>
          DeleteExpired_keys ks
            (if err = None \<and> onEvicted kv'
             then kv'\<lparr>spawned := spawned kv' @ [onEvicted_call (Key itm) (I64 (Expiration itm))]\<rparr>
             else kv'))"

text \<open>The outer loop, over the buckets still to visit, with the local variable
  \<^verbatim>\<open>expired\<close>; it ends at the \<^verbatim>\<open>break\<close> or when the map is exhausted.\<close>

fun DeleteExpired_buckets ::
  "int64 \<Rightarrow> (int64 \<times> string list) list \<Rightarrow> KV \<Rightarrow> int64 \<Rightarrow> KV \<times> int64" where
  "DeleteExpired_buckets now [] kv expired = (kv, expired)"
| "DeleteExpired_buckets now ((expiration, keys) # rest) kv expired =
     (if sint expiration < sint now \<and> length keys > 0
      then (DeleteExpired_keys keys kv, expiration)
      else DeleteExpired_buckets now rest kv expired)"

definition DeleteExpired :: "int64 \<Rightarrow> KV \<Rightarrow> KV" where
  "DeleteExpired now kv =
     (case DeleteExpired_buckets now (exp kv) kv 0 of
        (kv', expired) \<Rightarrow> kv'\<lparr>exp := AList.delete expired (exp kv')\<rparr>)"

subsection \<open>The janitor\<close>

text \<open>The bodies of the three receiving cases of the \<^verbatim>\<open>select\<close> in \<^verbatim>\<open>runJanitor\<close>.\<close>

definition runJanitor_metaAdd :: "meta \<Rightarrow> KV \<Rightarrow> KV" where
  "runJanitor_metaAdd lm kv =
     (case map_of (exp kv) (meta_Expiration lm) of
        Some curr' \<Rightarrow>
          kv\<lparr>exp := AList.update (meta_Expiration lm) (List.insert (meta_Key lm) curr') (exp kv)\<rparr>
      | None \<Rightarrow>
          kv\<lparr>exp := AList.update (meta_Expiration lm) [meta_Key lm] (exp kv)\<rparr>)"

definition runJanitor_metaUpdate :: "updateMeta \<Rightarrow> KV \<Rightarrow> KV" where
  "runJanitor_metaUpdate mu kv =
     (let kv1 = (case map_of (exp kv) (PriorExpiration mu) of
                   Some curr' \<Rightarrow>
                     kv\<lparr>exp := AList.update (PriorExpiration mu)
                                  (removeAll (meta_Key mu) curr') (exp kv)\<rparr>
                 | None \<Rightarrow> kv)
      in case map_of (exp kv1) (meta_Expiration mu) of
           Some curr' \<Rightarrow>
             kv1\<lparr>exp := AList.update (meta_Expiration mu)
                           (List.insert (meta_Key mu) curr') (exp kv1)\<rparr>
         | None \<Rightarrow>
             kv1\<lparr>exp := AList.update (meta_Expiration mu) [meta_Key mu] (exp kv1)\<rparr>)"

definition runJanitor_metaDelete :: "meta \<Rightarrow> KV \<Rightarrow> KV" where
  "runJanitor_metaDelete md kv =
     (case map_of (exp kv) (meta_Expiration md) of
        Some curr' \<Rightarrow>
          kv\<lparr>exp := AList.update (meta_Expiration md) (removeAll (meta_Key md) curr') (exp kv)\<rparr>
      | None \<Rightarrow> kv)"

text \<open>
  One iteration of the \<^verbatim>\<open>for { select { .. } }\<close> loop. \<^verbatim>\<open>select\<close> takes any case that
  can proceed and \<^verbatim>\<open>default\<close> only when none can; which one is the argument of the
  iteration, and the result is \<open>None\<close> when that case cannot be taken in \<open>kv\<close>.
\<close>

datatype select_case = case_metaAdd | case_metaUpdate | case_metaDelete | case_default

fun runJanitor_iter :: "select_case \<Rightarrow> int64 \<Rightarrow> KV \<Rightarrow> KV option" where
  "runJanitor_iter case_metaAdd now kv =
     (case metaAdd kv of
        [] \<Rightarrow> None
      | lm # q \<Rightarrow> Some (runJanitor_metaAdd lm (kv\<lparr>metaAdd := q\<rparr>)))"
| "runJanitor_iter case_metaUpdate now kv =
     (case metaUpdate kv of
        [] \<Rightarrow> None
      | mu # q \<Rightarrow> Some (runJanitor_metaUpdate mu (kv\<lparr>metaUpdate := q\<rparr>)))"
| "runJanitor_iter case_metaDelete now kv =
     (case metaDelete kv of
        [] \<Rightarrow> None
      | md # q \<Rightarrow> Some (runJanitor_metaDelete md (kv\<lparr>metaDelete := q\<rparr>)))"
| "runJanitor_iter case_default now kv =
     (if metaAdd kv = [] \<and> metaUpdate kv = [] \<and> metaDelete kv = []
      then Some (DeleteExpired now kv)
      else None)"

section \<open>Properties\<close>

subsection \<open>Reading\<close>

text \<open>
  Claim C10. Whenever \<^verbatim>\<open>Get\<close> reports \<^verbatim>\<open>found = false\<close>, for an absent key as well as
  for an item it treats as expired, the value it returns is \<^verbatim>\<open>nil\<close>.
\<close>

theorem Get_not_found_nil:
  "\<not> snd (Get now key kv) \<Longrightarrow> fst (Get now key kv) = nil"
  by (simp add: Get_def split: option.splits if_splits)

theorem Get_not_found_nil_witness:
  "\<not> snd (Get 10 ''k'' (Set 0 ''k'' (Str ''v'') 5 (New 0 0)))
   \<and> fst (Get 10 ''k'' (Set 0 ''k'' (Str ''v'') 5 (New 0 0))) = nil"
proof -
  have h: "\<not> snd (Get 10 ''k'' (Set 0 ''k'' (Str ''v'') 5 (New 0 0)))"
    by (simp add: Get_def Set_def New_def DefaultExpiration_def NoExpiration_def)
  from Get_not_found_nil [OF h] h show ?thesis by simp
qed

text \<open>What \<^verbatim>\<open>Get\<close> and \<^verbatim>\<open>IsExist\<close> compute: an entry is visible exactly when it is
  in the store with an expiration strictly after the clock, and \<^verbatim>\<open>IsExist\<close> is the
  flag that \<^verbatim>\<open>Get\<close> returns.\<close>

lemma Get_found_iff:
  "snd (Get now key kv)
     \<longleftrightarrow> (\<exists>item. map_of (items kv) key = Some item \<and> sint now < sint (Expiration item))"
  by (simp add: Get_def split: option.splits)

lemma Get_found_value:
  "map_of (items kv) key = Some item \<Longrightarrow> sint now < sint (Expiration item)
     \<Longrightarrow> Get now key kv = (Object item, True)"
  by (simp add: Get_def)

lemma IsExist_eq_Get: "IsExist now key kv = snd (Get now key kv)"
  by (simp add: IsExist_def Get_def split: option.splits)

text \<open>
  Claim C1 says that an item stored with the never-expire sentinel
  (\<^verbatim>\<open>expiresAt == 0\<close>) is always returned by \<^verbatim>\<open>Get\<close>, and that \<^verbatim>\<open>IsExist\<close> agrees. In
  the code the only test is \<^verbatim>\<open>val.Expiration > now\<close>: after
  \<^verbatim>\<open>Set("name", "mike", NoExpiration)\<close> the item is in the store with
  \<^verbatim>\<open>Expiration\<close> 0, and at any later clock reading \<^verbatim>\<open>Get\<close> answers \<^verbatim>\<open>(nil, false)\<close>
  and \<^verbatim>\<open>IsExist\<close> answers \<^verbatim>\<open>false\<close>.
\<close>

theorem Get_NoExpiration_not_found:
  "map_of (items (Set 1000 ''name'' (Str ''mike'') NoExpiration (New 5 (- 1)))) ''name''
     = Some \<lparr>Key = ''name'', Object = Str ''mike'', Expiration = 0\<rparr>
   \<and> Get 1000 ''name'' (Set 1000 ''name'' (Str ''mike'') NoExpiration (New 5 (- 1)))
     = (nil, False)
   \<and> IsExist 1000 ''name'' (Set 1000 ''name'' (Str ''mike'') NoExpiration (New 5 (- 1)))
     = False"
  by (simp add: Get_def IsExist_def Set_def New_def DefaultExpiration_def NoExpiration_def)

subsection \<open>Flush\<close>

lemma Flush_fold_items:
  "items (fold (\<lambda>(key, val) kv'. kv'\<lparr>items := AList.delete key (items kv')\<rparr>) xs kv)
     = filter (\<lambda>(k, v). k \<notin> fst ` set xs) (items kv)"
proof (induction xs arbitrary: kv)
  case Nil
  then show ?case by simp
next
  case (Cons x xs)
  show ?case
  proof (cases x)
    case (Pair a b)
    have "items (fold (\<lambda>(key, val) kv'. kv'\<lparr>items := AList.delete key (items kv')\<rparr>) (x # xs) kv)
        = filter (\<lambda>(k, v). k \<notin> fst ` set xs) (AList.delete a (items kv))"
      by (simp add: Pair Cons.IH)
    also have "\<dots> = filter (\<lambda>(k, v). k \<notin> fst ` set (x # xs)) (items kv)"
      by (auto simp: Pair AList.delete_eq intro!: filter_cong)
    finally show ?thesis .
  qed
qed

lemma Flush_fold_spawned:
  "spawned (fold (\<lambda>(key, val) kv'. kv'\<lparr>items := AList.delete key (items kv')\<rparr>) xs kv)
     = spawned kv"
  by (induction xs arbitrary: kv) auto

lemma ItemCountAll_length: "ItemCountAll kv = int (length (items kv))"
proof -
  have "fold (\<lambda>(key, val) total. total + 1) xs (n::int) = n + int (length xs)"
    for xs :: "(string \<times> Item) list" and n
    by (induction xs arbitrary: n) auto
  then show ?thesis by (simp add: ItemCountAll_def)
qed

text \<open>
  Claim C8. \<^verbatim>\<open>Flush\<close> removes every entry that is physically present, so that
  \<^verbatim>\<open>ItemCountAll\<close> is 0 right afterwards, and it starts neither the on-deleted nor
  the on-evicted callback: the list of spawned callback calls is the one before.
\<close>

theorem Flush_clears_without_callbacks:
  "items (Flush kv) = [] \<and> ItemCountAll (Flush kv) = 0 \<and> spawned (Flush kv) = spawned kv"
proof -
  have "items (Flush kv) = []"
    unfolding Flush_def Flush_fold_items by (force simp: filter_empty_conv)
  moreover have "spawned (Flush kv) = spawned kv"
    unfolding Flush_def by (simp add: Flush_fold_spawned)
  ultimately show ?thesis by (simp add: ItemCountAll_length)
qed

subsection \<open>Writing\<close>




text \<open>
  Claim C7. \<^verbatim>\<open>Set\<close> stores, under the key, an item with the given value and the
  expiration \<open>e\<close> resolved from the ttl argument: \<open>now + defaultExpiration\<close> for the
  default-TTL sentinel, 0 for the never-expire sentinel, \<open>now + ttl\<close> for any other
  value; it does so whether or not the key was present. When the key was absent it
  sends exactly one \<^verbatim>\<open>meta\<close> on \<^verbatim>\<open>metaAdd\<close>; when it was present with another
  expiration, exactly one \<^verbatim>\<open>updateMeta\<close> on \<^verbatim>\<open>metaUpdate\<close> carrying the prior and the
  new expiration; when it was present with the same expiration, nothing.
\<close>

theorem Set_resolves_ttl_and_emits:
  "\<exists>e. (ttl = DefaultExpiration \<longrightarrow> e = now + defaultExpiration kv)
      \<and> (ttl = NoExpiration \<longrightarrow> e = 0)
      \<and> (ttl \<noteq> DefaultExpiration \<and> ttl \<noteq> NoExpiration \<longrightarrow> e = now + ttl)
      \<and> map_of (items (Set now key val ttl kv)) key
          = Some \<lparr>Key = key, Object = val, Expiration = e\<rparr>
      \<and> (map_of (items kv) key = None \<longrightarrow>
            metaAdd (Set now key val ttl kv)
              = metaAdd kv @ [\<lparr>meta_Key = key, meta_Expiration = e\<rparr>]
            \<and> metaUpdate (Set now key val ttl kv) = metaUpdate kv
            \<and> metaDelete (Set now key val ttl kv) = metaDelete kv)
      \<and> (\<forall>prior. map_of (items kv) key = Some prior \<and> Expiration prior \<noteq> e \<longrightarrow>
            metaUpdate (Set now key val ttl kv)
              = metaUpdate kv @ [\<lparr>meta_Key = key, meta_Expiration = e,
                                  PriorExpiration = Expiration prior\<rparr>]
            \<and> metaAdd (Set now key val ttl kv) = metaAdd kv
            \<and> metaDelete (Set now key val ttl kv) = metaDelete kv)
      \<and> (\<forall>prior. map_of (items kv) key = Some prior \<and> Expiration prior = e \<longrightarrow>
            metaAdd (Set now key val ttl kv) = metaAdd kv
            \<and> metaUpdate (Set now key val ttl kv) = metaUpdate kv
            \<and> metaDelete (Set now key val ttl kv) = metaDelete kv)"
  by (cases "map_of (items kv) key")
     (auto simp: Set_def Let_def AList.update_conv' DefaultExpiration_def NoExpiration_def)

theorem Set_resolves_ttl_and_emits_witness:
  "map_of (items (New 5 (- 1))) ''k'' = None
   \<and> Set 100 ''k'' (Str ''v'') DefaultExpiration (New 5 (- 1))
       = (New 5 (- 1))\<lparr>items := [(''k'', \<lparr>Key = ''k'', Object = Str ''v'', Expiration = 105\<rparr>)],
                        metaAdd := [\<lparr>meta_Key = ''k'', meta_Expiration = 105\<rparr>]\<rparr>
   \<and> map_of (items (Set 100 ''k'' (Str ''v'') DefaultExpiration (New 5 (- 1)))) ''k''
       = Some \<lparr>Key = ''k'', Object = Str ''v'', Expiration = 105\<rparr>
   \<and> metaUpdate (Set 200 ''k'' (Str ''w'') NoExpiration
                   (Set 100 ''k'' (Str ''v'') DefaultExpiration (New 5 (- 1))))
       = [\<lparr>meta_Key = ''k'', meta_Expiration = 0, PriorExpiration = 105\<rparr>]
   \<and> map_of (items (Set 200 ''k'' (Str ''w'') NoExpiration
                   (Set 100 ''k'' (Str ''v'') DefaultExpiration (New 5 (- 1))))) ''k''
       = Some \<lparr>Key = ''k'', Object = Str ''w'', Expiration = 0\<rparr>
   \<and> map_of (items (Set 95 ''k'' (Str ''w'') 10
                   (Set 100 ''k'' (Str ''v'') DefaultExpiration (New 5 (- 1))))) ''k''
       = Some \<lparr>Key = ''k'', Object = Str ''w'', Expiration = 105\<rparr>
   \<and> metaAdd (Set 95 ''k'' (Str ''w'') 10
                   (Set 100 ''k'' (Str ''v'') DefaultExpiration (New 5 (- 1))))
       = [\<lparr>meta_Key = ''k'', meta_Expiration = 105\<rparr>]
   \<and> metaUpdate (Set 95 ''k'' (Str ''w'') 10
                   (Set 100 ''k'' (Str ''v'') DefaultExpiration (New 5 (- 1))))
       = []"
proof -
  have absent: "map_of (items (New 5 (- 1))) ''k'' = None"
    by (simp add: New_def)
  have first: "Set 100 ''k'' (Str ''v'') DefaultExpiration (New 5 (- 1))
       = (New 5 (- 1))\<lparr>items := [(''k'', \<lparr>Key = ''k'', Object = Str ''v'', Expiration = 105\<rparr>)],
                        metaAdd := [\<lparr>meta_Key = ''k'', meta_Expiration = 105\<rparr>]\<rparr>"
    by (simp add: Set_def New_def DefaultExpiration_def)
  from Set_resolves_ttl_and_emits [of DefaultExpiration 100 "New 5 (- 1)" "''k''" "Str ''v''"]
       Set_resolves_ttl_and_emits [of NoExpiration 200
          "Set 100 ''k'' (Str ''v'') DefaultExpiration (New 5 (- 1))" "''k''" "Str ''w''"]
       Set_resolves_ttl_and_emits [of 10 95
          "Set 100 ''k'' (Str ''v'') DefaultExpiration (New 5 (- 1))" "''k''" "Str ''w''"]
       absent
  show ?thesis
    unfolding first by (simp add: New_def DefaultExpiration_def NoExpiration_def)
qed

subsection \<open>Deleting\<close>

text \<open>
  What \<^verbatim>\<open>Delete\<close> does to the store: on an absent key it returns the error and
  changes nothing; on a present key, whatever its expiration, it removes the entry,
  starts the on-deleted callback (when one is registered) with the key and the
  removed value, and returns no error; a second \<^verbatim>\<open>Delete\<close> of the same key then
  fails.
\<close>

lemma Delete_store_effect:
  "(map_of (items kv) key = None \<longrightarrow>
      Delete key kv = (kv, Some (errors_New ''key args not exist'')))
   \<and> (\<forall>item. map_of (items kv) key = Some item \<longrightarrow>
        snd (Delete key kv) = None
        \<and> items (fst (Delete key kv)) = AList.delete key (items kv)
        \<and> map_of (items (fst (Delete key kv))) key = None
        \<and> spawned (fst (Delete key kv))
            = (if onDeleted kv then spawned kv @ [onDeleted_call key (Object item)] else spawned kv)
        \<and> Delete key (fst (Delete key kv))
            = (fst (Delete key kv), Some (errors_New ''key args not exist'')))"
  by (simp add: Delete_def deleteInner_def AList.delete_conv')

text \<open>
  Claim C5 adds that \<^verbatim>\<open>Delete\<close> emits a \<^verbatim>\<open>Removed\<close> event carrying the key and its
  expiration timestamp. \<^verbatim>\<open>Delete\<close> builds the event from the item that
  \<^verbatim>\<open>deleteInner\<close> returns, and that is the zero \<^verbatim>\<open>Item\<close>: after
  \<^verbatim>\<open>Set("a", "v", 5)\<close> at clock 100 the stored expiration is 105, and \<^verbatim>\<open>Delete("a")\<close>
  removes the entry, starts \<^verbatim>\<open>onDeleted("a", "v")\<close>, returns no error, and sends
  \<^verbatim>\<open>meta{Key: "", Expiration: 0}\<close> on \<^verbatim>\<open>metaDelete\<close>.
\<close>

theorem Delete_sends_zero_meta:
  "map_of (items (OnDeleted True (Set 100 ''a'' (Str ''v'') 5 (New 0 0)))) ''a''
     = Some \<lparr>Key = ''a'', Object = Str ''v'', Expiration = 105\<rparr>
   \<and> Delete ''a'' (OnDeleted True (Set 100 ''a'' (Str ''v'') 5 (New 0 0)))
     = ((New 0 0)\<lparr>onDeleted := True,
                    metaAdd := [\<lparr>meta_Key = ''a'', meta_Expiration = 105\<rparr>],
                    spawned := [onDeleted_call ''a'' (Str ''v'')],
                    metaDelete := [\<lparr>meta_Key = [], meta_Expiration = 0\<rparr>]\<rparr>,
        None)"
  by (simp add: Delete_def deleteInner_def Item_zero_def OnDeleted_def Set_def New_def
        DefaultExpiration_def NoExpiration_def)

subsection \<open>Applying index events\<close>

text \<open>
  Claim C9 says that applying an \<^verbatim>\<open>Updated\<close> or a \<^verbatim>\<open>Removed\<close> event deletes a
  bucket that becomes empty. The janitor writes the emptied bucket back into
  \<^verbatim>\<open>exp\<close>: after \<^verbatim>\<open>Set("a", "v", 5)\<close> and \<^verbatim>\<open>Set("a", "w", 50)\<close> at clock 100, applying
  the \<^verbatim>\<open>Added\<close> and then the \<^verbatim>\<open>Updated\<close> event leaves bucket 105 in the index, empty;
  and removing the only key of bucket 105 leaves that bucket in the index, empty.
\<close>

theorem runJanitor_leaves_empty_bucket:
  "Option.bind (runJanitor_iter case_metaAdd 100
          (Set 100 ''a'' (Str ''w'') 50 (Set 100 ''a'' (Str ''v'') 5 (New 0 0))))
        (runJanitor_iter case_metaUpdate 100)
     = Some ((New 0 0)\<lparr>items := [(''a'', \<lparr>Key = ''a'', Object = Str ''w'', Expiration = 150\<rparr>)],
                        exp := [(105, []), (150, [''a''])]\<rparr>)
   \<and> runJanitor_metaDelete \<lparr>meta_Key = ''a'', meta_Expiration = 105\<rparr>
        ((New 0 0)\<lparr>exp := [(105, [''a''])]\<rparr>)
     = (New 0 0)\<lparr>exp := [(105, [])]\<rparr>"
  by (simp add: runJanitor_metaAdd_def runJanitor_metaUpdate_def runJanitor_metaDelete_def
        Set_def New_def DefaultExpiration_def NoExpiration_def)

text \<open>
  Claim C9, as the code has it. Applying \<^verbatim>\<open>Updated(key, oldT, newT)\<close> with
  \<open>oldT \<noteq> newT\<close> removes the key from bucket \<open>oldT\<close> when that bucket exists and keeps
  the bucket, also when it is now empty (no bucket is created when it did not
  exist); for \<open>newT \<noteq> 0\<close>, bucket \<open>newT\<close> exists afterwards and holds its former keys
  and the key; every other bucket is as before. Applying \<^verbatim>\<open>Removed(key, t)\<close>
  removes the key from bucket \<open>t\<close> when that bucket exists, keeps the bucket also
  when it is now empty, and changes no other bucket.
\<close>

theorem runJanitor_events_keep_buckets:
  "(\<forall>ks. map_of (exp kv) (PriorExpiration mu) = Some ks
          \<and> PriorExpiration mu \<noteq> meta_Expiration mu \<longrightarrow>
        map_of (exp (runJanitor_metaUpdate mu kv)) (PriorExpiration mu)
          = Some (removeAll (meta_Key mu) ks))
   \<and> (map_of (exp kv) (PriorExpiration mu) = None
          \<and> PriorExpiration mu \<noteq> meta_Expiration mu \<longrightarrow>
        map_of (exp (runJanitor_metaUpdate mu kv)) (PriorExpiration mu) = None)
   \<and> (meta_Expiration mu \<noteq> 0 \<longrightarrow>
        map_option set (map_of (exp (runJanitor_metaUpdate mu kv)) (meta_Expiration mu))
          = Some (insert (meta_Key mu)
                    (case map_of (exp kv) (meta_Expiration mu) of
                       None \<Rightarrow> {}
                     | Some ks \<Rightarrow> set ks)))
   \<and> (\<forall>t. t \<noteq> PriorExpiration mu \<and> t \<noteq> meta_Expiration mu \<longrightarrow>
        map_of (exp (runJanitor_metaUpdate mu kv)) t = map_of (exp kv) t)
   \<and> (\<forall>t. map_of (exp (runJanitor_metaDelete md kv)) t
            = (if t = meta_Expiration md
               then map_option (removeAll (meta_Key md)) (map_of (exp kv) t)
               else map_of (exp kv) t))"
  by (auto simp: runJanitor_metaUpdate_def runJanitor_metaDelete_def Let_def
        AList.update_conv' split: option.splits)

theorem runJanitor_events_keep_buckets_witness:
  "map_of (exp ((New 0 0)\<lparr>exp := [(105, [''a'', ''b''])]\<rparr>)) 105 = Some [''a'', ''b'']
   \<and> (105 :: int64) \<noteq> 150 \<and> (150 :: int64) \<noteq> 0
   \<and> map_of (exp (runJanitor_metaUpdate
         \<lparr>meta_Key = ''a'', meta_Expiration = 150, PriorExpiration = 105\<rparr>
         ((New 0 0)\<lparr>exp := [(105, [''a'', ''b''])]\<rparr>))) 105 = Some [''b'']
   \<and> map_option set (map_of (exp (runJanitor_metaUpdate
         \<lparr>meta_Key = ''a'', meta_Expiration = 150, PriorExpiration = 105\<rparr>
         ((New 0 0)\<lparr>exp := [(105, [''a'', ''b''])]\<rparr>))) 150) = Some {''a''}
   \<and> map_of (exp (runJanitor_metaUpdate
         \<lparr>meta_Key = ''a'', meta_Expiration = 150, PriorExpiration = 105\<rparr>
         ((New 0 0)\<lparr>exp := [(105, [''a'', ''b''])]\<rparr>))) 300 = None
   \<and> map_of (exp (New 0 0)) 105 = None
   \<and> map_of (exp (runJanitor_metaUpdate
         \<lparr>meta_Key = ''a'', meta_Expiration = 150, PriorExpiration = 105\<rparr>
         (New 0 0))) 105 = None
   \<and> map_of (exp (runJanitor_metaDelete \<lparr>meta_Key = ''b'', meta_Expiration = 105\<rparr>
         ((New 0 0)\<lparr>exp := [(105, [''a'', ''b''])]\<rparr>))) 105 = Some [''a'']"
proof -
  have present: "map_of (exp ((New 0 0)\<lparr>exp := [(105, [''a'', ''b''])]\<rparr>)) 105 = Some [''a'', ''b'']"
    by simp
  have absent: "map_of (exp (New 0 0)) 105 = None"
    by (simp add: New_def)
  have times: "(105 :: int64) \<noteq> 150 \<and> (150 :: int64) \<noteq> 0"
    by simp
  from runJanitor_events_keep_buckets
         [of "(New 0 0)\<lparr>exp := [(105, [''a'', ''b''])]\<rparr>"
             "\<lparr>meta_Key = ''a'', meta_Expiration = 150, PriorExpiration = 105\<rparr>"
             "\<lparr>meta_Key = ''b'', meta_Expiration = 105\<rparr>"]
       runJanitor_events_keep_buckets
         [of "New 0 0"
             "\<lparr>meta_Key = ''a'', meta_Expiration = 150, PriorExpiration = 105\<rparr>"
             "\<lparr>meta_Key = ''b'', meta_Expiration = 105\<rparr>"]
       present absent times
  show ?thesis by simp
qed

text \<open>
  Claim C2 says that a key whose expiration is the never-expire sentinel is put in
  no bucket, so that the sweep never selects it. The janitor has no test for
  \<^verbatim>\<open>Expiration == 0\<close>: after \<^verbatim>\<open>Set("name", "mike", NoExpiration)\<close> it receives
  \<^verbatim>\<open>meta{Key: "name", Expiration: 0}\<close> and creates bucket 0 with the key; its next
  sweep, at clock 200, finds bucket 0 due (\<open>0 < now\<close>) and deletes the item from
  the store.
\<close>

theorem NoExpiration_item_swept:
  "runJanitor_iter case_metaAdd 100 (Set 100 ''name'' (Str ''mike'') NoExpiration (New 5 1000))
     = Some ((New 5 1000)\<lparr>items := [(''name'', \<lparr>Key = ''name'', Object = Str ''mike'', Expiration = 0\<rparr>)],
                          exp := [(0, [''name''])]\<rparr>)
   \<and> runJanitor_iter case_default 200
        ((New 5 1000)\<lparr>items := [(''name'', \<lparr>Key = ''name'', Object = Str ''mike'', Expiration = 0\<rparr>)],
                      exp := [(0, [''name''])]\<rparr>)
     = Some (New 5 1000)"
  by (simp add: DeleteExpired_def deleteInner_def Item_zero_def runJanitor_metaAdd_def
        Set_def New_def DefaultExpiration_def NoExpiration_def)

subsection \<open>The sweep\<close>

lemma deleteInner_items:
  "items (fst (deleteInner k kv)) = AList.delete k (items kv)"
proof (cases "map_of (items kv) k")
  case None
  then have "k \<notin> fst ` set (items kv)"
    by (simp add: map_of_eq_None_iff)
  with None show ?thesis
    by (simp add: deleteInner_def)
next
  case (Some a)
  then show ?thesis
    by (simp add: deleteInner_def)
qed

lemma deleteInner_exp:
  "exp (fst (deleteInner k kv)) = exp kv"
  by (simp add: deleteInner_def split: option.splits)

lemma DeleteExpired_keys_exp:
  "exp (DeleteExpired_keys ks kv) = exp kv"
proof (induction ks arbitrary: kv)
  case Nil
  then show ?case by simp
next
  case (Cons k ks)
  obtain kv' itm err where d: "deleteInner k kv = (kv', itm, err)"
    by (cases "deleteInner k kv") auto
  with deleteInner_exp [of k kv] have "exp kv' = exp kv" by simp
  with d show ?case by (simp add: Cons.IH)
qed

lemma DeleteExpired_keys_items:
  "map_of (items (DeleteExpired_keys ks kv)) k
     = (if k \<in> set ks then None else map_of (items kv) k)"
proof (induction ks arbitrary: kv)
  case Nil
  then show ?case by simp
next
  case (Cons x ks)
  obtain kv' itm err where d: "deleteInner x kv = (kv', itm, err)"
    by (cases "deleteInner x kv") auto
  with deleteInner_items [of x kv] have "items kv' = AList.delete x (items kv)" by simp
  with d show ?case by (simp add: Cons.IH AList.delete_conv')
qed

lemma DeleteExpired_buckets_find:
  "DeleteExpired_buckets now bs kv e
     = (case find (\<lambda>(t, keys). sint t < sint now \<and> keys \<noteq> []) bs of
          None \<Rightarrow> (kv, e)
        | Some (t, keys) \<Rightarrow> (DeleteExpired_keys keys kv, t))"
proof (induction bs)
  case Nil
  then show ?case by simp
next
  case (Cons b bs)
  then show ?case by (cases b) simp
qed

text \<open>
  Claim C3 says that one sweep pass processes every bucket whose timestamp is at or
  before now. \<^verbatim>\<open>DeleteExpired\<close> leaves its loop at the first due bucket: with the
  buckets 105 and 106 both due at clock 200 (reached by two \<^verbatim>\<open>Set\<close> calls and the two
  \<^verbatim>\<open>Added\<close> events), one pass evicts the key of bucket 105 and discards that bucket,
  and leaves bucket 106 and its key in place.
\<close>

theorem DeleteExpired_leaves_due_bucket:
  "Option.bind (runJanitor_iter case_metaAdd 100
          (Set 100 ''b'' (Str ''w'') 6 (Set 100 ''a'' (Str ''v'') 5 (New 0 0))))
        (runJanitor_iter case_metaAdd 100)
     = Some ((New 0 0)\<lparr>items := [(''a'', \<lparr>Key = ''a'', Object = Str ''v'', Expiration = 105\<rparr>),
                                  (''b'', \<lparr>Key = ''b'', Object = Str ''w'', Expiration = 106\<rparr>)],
                        exp := [(105, [''a'']), (106, [''b''])]\<rparr>)
   \<and> sint (106 :: int64) < sint (200 :: int64)
   \<and> DeleteExpired 200
        ((New 0 0)\<lparr>items := [(''a'', \<lparr>Key = ''a'', Object = Str ''v'', Expiration = 105\<rparr>),
                             (''b'', \<lparr>Key = ''b'', Object = Str ''w'', Expiration = 106\<rparr>)],
                   exp := [(105, [''a'']), (106, [''b''])]\<rparr>)
     = (New 0 0)\<lparr>items := [(''b'', \<lparr>Key = ''b'', Object = Str ''w'', Expiration = 106\<rparr>)],
                  exp := [(106, [''b''])]\<rparr>"
  by (simp add: DeleteExpired_def deleteInner_def Item_zero_def runJanitor_metaAdd_def
        Set_def New_def DefaultExpiration_def NoExpiration_def)

text \<open>
  Claim C3, as the code has it. One sweep pass processes at most one bucket: the
  first one, in the order the map is visited, whose timestamp is strictly before
  now and which is not empty. When there is none, the pass deletes no key,
  starts no callback and changes no bucket other than bucket 0. When there is one,
  every key of that bucket is absent from the store afterwards, every other key
  keeps its entry, that bucket is discarded and every other bucket is as before.
  In both cases a bucket whose timestamp is not before now (and is not 0) is as
  before.
\<close>

theorem DeleteExpired_one_bucket:
  "(find (\<lambda>(t, keys). sint t < sint now \<and> keys \<noteq> []) (exp kv) = None \<longrightarrow>
      items (DeleteExpired now kv) = items kv
      \<and> spawned (DeleteExpired now kv) = spawned kv
      \<and> (\<forall>t'. t' \<noteq> 0 \<longrightarrow> map_of (exp (DeleteExpired now kv)) t' = map_of (exp kv) t'))
   \<and> (\<forall>t keys. find (\<lambda>(t, keys). sint t < sint now \<and> keys \<noteq> []) (exp kv) = Some (t, keys) \<longrightarrow>
         (\<forall>k. map_of (items (DeleteExpired now kv)) k
               = (if k \<in> set keys then None else map_of (items kv) k))
         \<and> map_of (exp (DeleteExpired now kv)) t = None
         \<and> (\<forall>t'. t' \<noteq> t \<longrightarrow> map_of (exp (DeleteExpired now kv)) t' = map_of (exp kv) t'))
   \<and> (\<forall>t'. \<not> sint t' < sint now \<and> t' \<noteq> 0 \<longrightarrow>
         map_of (exp (DeleteExpired now kv)) t' = map_of (exp kv) t')"
proof (cases "find (\<lambda>(t, keys). sint t < sint now \<and> keys \<noteq> []) (exp kv)")
  case None
  then show ?thesis
    by (simp add: DeleteExpired_def DeleteExpired_buckets_find)
next
  case (Some p)
  obtain t keys where p: "p = (t, keys)" by (cases p)
  from Some p have due: "sint t < sint now"
    by (auto simp: find_Some_iff)
  from Some p have eq: "DeleteExpired now kv
      = (DeleteExpired_keys keys kv)\<lparr>exp := AList.delete t (exp kv)\<rparr>"
    by (simp add: DeleteExpired_def DeleteExpired_buckets_find DeleteExpired_keys_exp)
  have "map_of (items (DeleteExpired now kv)) k
          = (if k \<in> set keys then None else map_of (items kv) k)" for k
    by (simp add: eq DeleteExpired_keys_items)
  moreover have "map_of (exp (DeleteExpired now kv)) t = None"
    by (simp add: eq AList.delete_conv')
  moreover have "map_of (exp (DeleteExpired now kv)) t' = map_of (exp kv) t'" if "t' \<noteq> t" for t'
    using that by (simp add: eq)
  moreover have "map_of (exp (DeleteExpired now kv)) t' = map_of (exp kv) t'"
    if "\<not> sint t' < sint now" for t'
  proof -
    from that due have "t' \<noteq> t" by auto
    then show ?thesis by (simp add: eq)
  qed
  ultimately show ?thesis
    using Some p by simp
qed

theorem DeleteExpired_one_bucket_witness:
  "find (\<lambda>(t, keys). sint t < sint (200 :: int64) \<and> keys \<noteq> [])
        (exp ((New 0 0)\<lparr>exp := [(300, [''c''])]\<rparr>)) = None
   \<and> items (DeleteExpired 200 ((New 0 0)\<lparr>exp := [(300, [''c''])]\<rparr>)) = []
   \<and> spawned (DeleteExpired 200 ((New 0 0)\<lparr>exp := [(300, [''c''])]\<rparr>)) = []
   \<and> map_of (exp (DeleteExpired 200 ((New 0 0)\<lparr>exp := [(300, [''c''])]\<rparr>))) 300 = Some [''c'']
   \<and> find (\<lambda>(t, keys). sint t < sint (200 :: int64) \<and> keys \<noteq> [])
        (exp ((New 0 0)\<lparr>items := [(''a'', \<lparr>Key = ''a'', Object = Str ''v'', Expiration = 105\<rparr>),
                                   (''b'', \<lparr>Key = ''b'', Object = Str ''w'', Expiration = 106\<rparr>)],
                         exp := [(105, [''a'']), (106, [''b'']), (300, [''c''])]\<rparr>))
       = Some (105, [''a''])
   \<and> map_of (items (DeleteExpired 200
        ((New 0 0)\<lparr>items := [(''a'', \<lparr>Key = ''a'', Object = Str ''v'', Expiration = 105\<rparr>),
                             (''b'', \<lparr>Key = ''b'', Object = Str ''w'', Expiration = 106\<rparr>)],
                   exp := [(105, [''a'']), (106, [''b'']), (300, [''c''])]\<rparr>))) ''a'' = None
   \<and> map_of (items (DeleteExpired 200
        ((New 0 0)\<lparr>items := [(''a'', \<lparr>Key = ''a'', Object = Str ''v'', Expiration = 105\<rparr>),
                             (''b'', \<lparr>Key = ''b'', Object = Str ''w'', Expiration = 106\<rparr>)],
                   exp := [(105, [''a'']), (106, [''b'']), (300, [''c''])]\<rparr>))) ''b''
       = Some \<lparr>Key = ''b'', Object = Str ''w'', Expiration = 106\<rparr>
   \<and> map_of (exp (DeleteExpired 200
        ((New 0 0)\<lparr>items := [(''a'', \<lparr>Key = ''a'', Object = Str ''v'', Expiration = 105\<rparr>),
                             (''b'', \<lparr>Key = ''b'', Object = Str ''w'', Expiration = 106\<rparr>)],
                   exp := [(105, [''a'']), (106, [''b'']), (300, [''c''])]\<rparr>))) 105 = None
   \<and> map_of (exp (DeleteExpired 200
        ((New 0 0)\<lparr>items := [(''a'', \<lparr>Key = ''a'', Object = Str ''v'', Expiration = 105\<rparr>),
                             (''b'', \<lparr>Key = ''b'', Object = Str ''w'', Expiration = 106\<rparr>)],
                   exp := [(105, [''a'']), (106, [''b'']), (300, [''c''])]\<rparr>))) 106 = Some [''b'']
   \<and> \<not> sint (300 :: int64) < sint (200 :: int64) \<and> (300 :: int64) \<noteq> 0
   \<and> map_of (exp (DeleteExpired 200
        ((New 0 0)\<lparr>items := [(''a'', \<lparr>Key = ''a'', Object = Str ''v'', Expiration = 105\<rparr>),
                             (''b'', \<lparr>Key = ''b'', Object = Str ''w'', Expiration = 106\<rparr>)],
                   exp := [(105, [''a'']), (106, [''b'']), (300, [''c''])]\<rparr>))) 300 = Some [''c'']"
proof -
  have none: "find (\<lambda>(t, keys). sint t < sint (200 :: int64) \<and> keys \<noteq> [])
        (exp ((New 0 0)\<lparr>exp := [(300, [''c''])]\<rparr>)) = None"
    by simp
  have some: "find (\<lambda>(t, keys). sint t < sint (200 :: int64) \<and> keys \<noteq> [])
        (exp ((New 0 0)\<lparr>items := [(''a'', \<lparr>Key = ''a'', Object = Str ''v'', Expiration = 105\<rparr>),
                                   (''b'', \<lparr>Key = ''b'', Object = Str ''w'', Expiration = 106\<rparr>)],
                         exp := [(105, [''a'']), (106, [''b'']), (300, [''c''])]\<rparr>))
       = Some (105, [''a''])"
    by simp
  have later: "\<not> sint (300 :: int64) < sint (200 :: int64) \<and> (300 :: int64) \<noteq> 0"
    by simp
  from DeleteExpired_one_bucket [of 200 "(New 0 0)\<lparr>exp := [(300, [''c''])]\<rparr>"]
       DeleteExpired_one_bucket [of 200
         "(New 0 0)\<lparr>items := [(''a'', \<lparr>Key = ''a'', Object = Str ''v'', Expiration = 105\<rparr>),
                              (''b'', \<lparr>Key = ''b'', Object = Str ''w'', Expiration = 106\<rparr>)],
                    exp := [(105, [''a'']), (106, [''b'']), (300, [''c''])]\<rparr>"]
       none some later
  show ?thesis by (simp add: New_def)
qed

text \<open>
  Claim C4 says that the sweep invokes the on-evicted callback once per evicted key,
  with that key and the removed value. \<^verbatim>\<open>DeleteExpired\<close> calls
  \<^verbatim>\<open>kv.onEvicted(itm.Key, itm.Expiration)\<close> on the item returned by \<^verbatim>\<open>deleteInner\<close>,
  which is the zero \<^verbatim>\<open>Item\<close>: with a callback registered, \<^verbatim>\<open>Set("a", "v", 5)\<close> at
  clock 100, the \<^verbatim>\<open>Added\<close> event applied and a sweep at clock 200, the one call
  started is \<^verbatim>\<open>onEvicted("", int64(0))\<close>.
\<close>

theorem DeleteExpired_onEvicted_arguments:
  "runJanitor_iter case_metaAdd 100 (OnEvicted True (Set 100 ''a'' (Str ''v'') 5 (New 0 0)))
     = Some ((New 0 0)\<lparr>items := [(''a'', \<lparr>Key = ''a'', Object = Str ''v'', Expiration = 105\<rparr>)],
                       onEvicted := True,
                       exp := [(105, [''a''])]\<rparr>)
   \<and> DeleteExpired 200
        ((New 0 0)\<lparr>items := [(''a'', \<lparr>Key = ''a'', Object = Str ''v'', Expiration = 105\<rparr>)],
                   onEvicted := True,
                   exp := [(105, [''a''])]\<rparr>)
     = (New 0 0)\<lparr>onEvicted := True, spawned := [onEvicted_call [] (I64 0)]\<rparr>"
  by (simp add: DeleteExpired_def deleteInner_def Item_zero_def runJanitor_metaAdd_def
        OnEvicted_def Set_def New_def DefaultExpiration_def NoExpiration_def)

end
